theory Spec2Isabelle
  imports Main
begin

section \<open>Data model\<close>

text \<open>
  The records follow \<^verbatim>\<open>models/models.go\<close> and \<^verbatim>\<open>config/config.go\<close>, restricted to
  the fields that the admission middleware and the execution controller read or write.
  Go's \<^verbatim>\<open>int\<close> is modelled as \<^typ>\<open>int\<close>. The arithmetic on it is the counter
  increment of the store, which cannot reach \<open>2^63\<close> in a window, and the product that
  makes the window's duration, whose wrap-around is written out. Timestamps of the task
  records are Unix seconds.
\<close>

record Config =
  RateLimitWindow :: int
  MaxRequestsPerWindow :: int
  MaxExecutionsPerDay :: int
  ContainerTimeout :: int

record User =
  ID :: string
  Username :: string
  Roles :: "string list"
  Quota :: string

record Dataset =
  ID :: string
  UserID :: string

record CodeExecutionRequest =
  DatasetID :: string
  Code :: string
  Timeout :: "int option"

record TaskStatus =
  TaskID :: string
  Status :: string
  Progress :: int
  StartTime :: int
  EndTime :: int
  Results :: "string option"
  Error :: string

record CodeExecution =
  ID :: string
  UserID :: string
  DatasetID :: string
  Code :: string
  Status :: string
  Results :: string
  StartTime :: int
  EndTime :: int
  Error :: string

text \<open>The JSON bodies the handlers send, and a response as status code and body.\<close>

datatype body =
  JError string
| JTask TaskStatus
| JAccepted string string string
| JCancelled string string

type_synonym response = "nat \<times> body"

text \<open>A middleware either aborts the chain with a response or calls \<^verbatim>\<open>c.Next()\<close>.\<close>

datatype outcome = Abort response | Next

section \<open>Durations\<close>

text \<open>
  Go's \<^verbatim>\<open>time.Duration\<close> is an \<^verbatim>\<open>int64\<close> count of nanoseconds, and its arithmetic wraps:
  \<open>int64\<close> brings an integer into the range of the type. Division of \<^verbatim>\<open>int64\<close> truncates
  towards zero.
\<close>

definition int64 :: "int \<Rightarrow> int" where
  "int64 x = (x + 2 ^ 63) mod 2 ^ 64 - 2 ^ 63"

definition go_div :: "int \<Rightarrow> int \<Rightarrow> int" where
  "go_div a b = (if a < 0 then - ((- a) div b) else a div b)"

definition millisecond :: int where
  "millisecond = 1000000"

definition second :: int where
  "second = 1000000000"

definition hour :: int where
  "hour = 3600 * second"

text \<open>
  How the client writes a duration into a command: \<^verbatim>\<open>usePrecise\<close>, \<^verbatim>\<open>formatMs\<close> and
  \<^verbatim>\<open>formatSec\<close> of the Redis client library.
\<close>

definition usePrecise :: "int \<Rightarrow> bool" where
  "usePrecise dur = (dur < second \<or> dur mod second \<noteq> 0)"

definition formatMs :: "int \<Rightarrow> int" where
  "formatMs dur = (if dur > 0 \<and> dur < millisecond then 1 else go_div dur millisecond)"

definition formatSec :: "int \<Rightarrow> int" where
  "formatSec dur = (if dur > 0 \<and> dur < second then 1 else go_div dur second)"

definition KeepTTL :: int where
  "KeepTTL = - 1"

section \<open>The counter store\<close>

text \<open>
  The Redis server behind \<^verbatim>\<open>redisClient\<close>: a key holds an integer and, optionally, the
  absolute time at which it expires. The clock of the store counts milliseconds. A key
  whose expiry has passed is gone. \<^verbatim>\<open>GET\<close> answers \<^verbatim>\<open>redis.Nil\<close> for a missing key.
  \<^verbatim>\<open>Set\<close> of the client takes a duration: a positive one is sent as \<^verbatim>\<open>PX\<close> milliseconds
  when it is below a second or not a whole number of seconds, and as \<^verbatim>\<open>EX\<close> seconds
  otherwise; \<^verbatim>\<open>KeepTTL\<close> keeps the expiry the key has; for any other duration no expiry
  is sent. \<^verbatim>\<open>INCR\<close> adds one and keeps the expiry, creating a missing key as 1 with no
  expiry. \<^verbatim>\<open>Expire\<close> of the client sends the duration in seconds; the server
  replaces the expiry of an existing key, and deletes the key when the seconds are not
  positive. The flag \<open>up\<close> says whether the store answers at all during the request:
  when it does not, every call returns an error and changes nothing.
\<close>

type_synonym redis = "string \<rightharpoonup> (int \<times> int option)"

datatype get_reply = RedisNil | RedisVal int | RedisErr

definition live :: "int \<Rightarrow> redis \<Rightarrow> string \<Rightarrow> (int \<times> int option) option" where
  "live now st k =
     (case st k of
        None \<Rightarrow> None
      | Some (v, ex) \<Rightarrow>
          (case ex of
             None \<Rightarrow> Some (v, ex)
           | Some t \<Rightarrow> if now < t then Some (v, ex) else None))"

definition redis_Get :: "bool \<Rightarrow> int \<Rightarrow> redis \<Rightarrow> string \<Rightarrow> get_reply" where
  "redis_Get up now st k =
     (if \<not> up then RedisErr
      else case live now st k of None \<Rightarrow> RedisNil | Some (v, ex) \<Rightarrow> RedisVal v)"

definition redis_Set :: "int \<Rightarrow> redis \<Rightarrow> string \<Rightarrow> int \<Rightarrow> int \<Rightarrow> redis" where
  "redis_Set now st k v expiration =
     st(k \<mapsto> (v,
       if expiration > 0 then
         (if usePrecise expiration then Some (now + formatMs expiration)
          else Some (now + 1000 * formatSec expiration))
       else if expiration = KeepTTL then
         (case live now st k of None \<Rightarrow> None | Some (v', ex) \<Rightarrow> ex)
       else None))"

definition redis_Incr :: "int \<Rightarrow> redis \<Rightarrow> string \<Rightarrow> redis" where
  "redis_Incr now st k =
     (case live now st k of
        None \<Rightarrow> st(k \<mapsto> (1, None))
      | Some (v, ex) \<Rightarrow> st(k \<mapsto> (v + 1, ex)))"

definition redis_Expire :: "int \<Rightarrow> redis \<Rightarrow> string \<Rightarrow> int \<Rightarrow> redis" where
  "redis_Expire now st k expiration =
     (case live now st k of
        None \<Rightarrow> st
      | Some (v, ex) \<Rightarrow>
          if 0 < formatSec expiration
          then st(k \<mapsto> (v, Some (now + 1000 * formatSec expiration)))
          else st(k := None))"

section \<open>Request rate limiter\<close>

text \<open>
  \<^verbatim>\<open>RateLimitMiddleware\<close>. The identity is the subject of a valid bearer token
  (\<open>sub\<close>, \<open>None\<close> when the header is missing, the token invalid or the claim not a
  string), else the client address.
\<close>

definition rate_limit_key :: "string option \<Rightarrow> string \<Rightarrow> string" where
  "rate_limit_key sub ip =
     (let userID = (case sub of None \<Rightarrow> ''anonymous'' | Some s \<Rightarrow> s);
          userID = (if userID = ''anonymous'' then ''ip:'' @ ip else userID)
      in ''ratelimit:'' @ userID)"

text \<open>\<^verbatim>\<open>time.Duration(cfg.RateLimitWindow)*time.Second\<close>.\<close>

definition window_duration :: "Config \<Rightarrow> int" where
  "window_duration cfg = int64 (int64 (RateLimitWindow cfg) * second)"

text \<open>
  The middleware talks to the store twice, and requests are served by goroutines of
  their own, so that the commands of other requests can reach the store between the two:
  \<open>RateLimit_read\<close> is the \<^verbatim>\<open>GET\<close>, \<open>RateLimit_write\<close> everything after it, on the
  reply that the request holds and on the store as it is by then. Each half has its own
  reading of the store's clock.
\<close>

definition RateLimit_read :: "bool \<Rightarrow> int \<Rightarrow> string option \<Rightarrow> string \<Rightarrow> redis \<Rightarrow> get_reply" where
  "RateLimit_read up now sub ip st = redis_Get up now st (rate_limit_key sub ip)"

definition RateLimit_write ::
  "Config \<Rightarrow> int \<Rightarrow> string option \<Rightarrow> string \<Rightarrow> get_reply \<Rightarrow> redis \<Rightarrow> outcome \<times> redis" where
  "RateLimit_write cfg now sub ip reply st =
     (let key = rate_limit_key sub ip in
      case reply of
        RedisNil \<Rightarrow> (Next, redis_Set now st key 1 (window_duration cfg))
      | RedisVal count \<Rightarrow>
          if count \<ge> MaxRequestsPerWindow cfg
          then (Abort (429, JError ''Too many requests. Please try again later.''), st)
          else (Next, redis_Incr now st key)
      | RedisErr \<Rightarrow> (Next, st))"

text \<open>
  A request whose two halves meet the same store, the \<^verbatim>\<open>GET\<close> at \<open>now\<close> and the rest at
  \<open>now'\<close>: no other command falls between them.
\<close>

definition RateLimitMiddleware ::
  "Config \<Rightarrow> bool \<Rightarrow> int \<Rightarrow> int \<Rightarrow> string option \<Rightarrow> string \<Rightarrow> redis \<Rightarrow> outcome \<times> redis" where
  "RateLimitMiddleware cfg up now now' sub ip st =
     RateLimit_write cfg now' sub ip (RateLimit_read up now sub ip st) st"

text \<open>
  A run of requests of one identity, one after another, each with the times of its two
  halves, the store answering each.
\<close>

fun rate_limit_run ::
  "Config \<Rightarrow> string option \<Rightarrow> string \<Rightarrow> redis \<Rightarrow> (int \<times> int) list \<Rightarrow> outcome list \<times> redis" where
  "rate_limit_run cfg sub ip st [] = ([], st)"
| "rate_limit_run cfg sub ip st ((t, t') # ts) =
     (case RateLimitMiddleware cfg True t t' sub ip st of
        (r, st') \<Rightarrow>
          (case rate_limit_run cfg sub ip st' ts of
             (rs, st'') \<Rightarrow> (r # rs, st'')))"

definition admitted :: "outcome list \<Rightarrow> nat" where
  "admitted rs = length (filter (\<lambda>r. r = Next) rs)"

section \<open>Execution quota\<close>

text \<open>
  \<^verbatim>\<open>json.Unmarshal(user.Quota, &quotaMap)\<close> with \<^verbatim>\<open>quotaMap map[string]int\<close> is a
  library call: it is a parameter \<open>unmarshal\<close> of the model, \<open>None\<close> when the call
  returns an error. The date is \<^verbatim>\<open>time.Now().Format("2006-01-02")\<close>, read from the clock
  with the time.
\<close>

type_synonym unmarshal = "string \<Rightarrow> (string \<rightharpoonup> int) option"

definition quota_key :: "string \<Rightarrow> string \<Rightarrow> string" where
  "quota_key userID today = ''execution_quota:'' @ userID @ '':'' @ today"

text \<open>The value of \<^verbatim>\<open>maxExecutions\<close> at the comparison in \<^verbatim>\<open>ExecutionQuotaMiddleware\<close>.\<close>

definition maxExecutions :: "Config \<Rightarrow> unmarshal \<Rightarrow> User \<Rightarrow> int" where
  "maxExecutions cfg unmarshal user =
     (if length (Quota user) > 0 then
        (case unmarshal (Quota user) of
           None \<Rightarrow> MaxExecutionsPerDay cfg
         | Some quotaMap \<Rightarrow>
             (case quotaMap ''max_executions_per_day'' of
                None \<Rightarrow> MaxExecutionsPerDay cfg
              | Some quota \<Rightarrow> if quota > 0 then quota else MaxExecutionsPerDay cfg))
      else MaxExecutionsPerDay cfg)"

definition ExecutionQuotaMiddleware ::
  "Config \<Rightarrow> unmarshal \<Rightarrow> bool \<Rightarrow> int \<Rightarrow> string \<Rightarrow> User option \<Rightarrow> redis \<Rightarrow> outcome \<times> redis" where
  "ExecutionQuotaMiddleware cfg unmarshal up now today ctx st =
     (case ctx of
        None \<Rightarrow> (Abort (500, JError ''User not found in context''), st)
      | Some user \<Rightarrow>
          (let key = quota_key (User.ID user) today in
           case redis_Get up now st key of
             RedisNil \<Rightarrow> (Next, redis_Set now st key 1 (24 * hour))
           | RedisVal count \<Rightarrow>
               if count \<ge> maxExecutions cfg unmarshal user
               then (Abort (429, JError ''You have exceeded your daily execution quota''), st)
               else (Next, redis_Incr now st key)
           | RedisErr \<Rightarrow> (Next, st)))"

text \<open>\<^verbatim>\<open>TrackExecution\<close>: the flag returned is \<^verbatim>\<open>err == nil\<close>.\<close>

definition TrackExecution :: "bool \<Rightarrow> int \<Rightarrow> string \<Rightarrow> string \<Rightarrow> redis \<Rightarrow> bool \<times> redis" where
  "TrackExecution up now today userID st =
     (let key = quota_key userID today in
      if \<not> up then (False, st)
      else (True, redis_Expire now (redis_Incr now st key) key (24 * hour)))"

section \<open>Task queue\<close>

text \<open>\<^verbatim>\<open>fmt.Sprintf("task-%d", n)\<close> prints \<open>n\<close> in decimal.\<close>

definition digit :: "nat \<Rightarrow> char" where
  "digit d =
     (if d = 0 then CHR ''0'' else if d = 1 then CHR ''1'' else if d = 2 then CHR ''2''
      else if d = 3 then CHR ''3'' else if d = 4 then CHR ''4'' else if d = 5 then CHR ''5''
      else if d = 6 then CHR ''6'' else if d = 7 then CHR ''7'' else if d = 8 then CHR ''8''
      else CHR ''9'')"

fun digits :: "nat \<Rightarrow> string" where
  "digits n = (if n < 10 then [digit n] else digits (n div 10) @ [digit (n mod 10)])"

declare digits.simps [simp del]

definition decimal :: "int \<Rightarrow> string" where
  "decimal i = (if i < 0 then ''-'' @ digits (nat (- i)) else digits (nat i))"

text \<open>
  The three operations of \<^verbatim>\<open>TaskQueue\<close>. Each returns a value and a nil error in the
  source; the result is \<open>Some\<close> of the value.
\<close>

definition SubmitCodeExecution ::
  "int \<Rightarrow> string \<Rightarrow> string \<Rightarrow> string \<Rightarrow> int \<Rightarrow> string \<Rightarrow> string option" where
  "SubmitCodeExecution nanos datasetID code userID timeout priority =
     Some (''task-'' @ decimal nanos)"

definition TaskQueue_GetTaskStatus :: "string \<Rightarrow> TaskStatus option" where
  "TaskQueue_GetTaskStatus taskID =
     Some \<lparr>TaskID = taskID, TaskStatus.Status = ''pending'', Progress = 0,
       TaskStatus.StartTime = 0, TaskStatus.EndTime = 0, TaskStatus.Results = None,
       TaskStatus.Error = []\<rparr>"

definition TaskQueue_CancelTask :: "string \<Rightarrow> string \<Rightarrow> bool option" where
  "TaskQueue_CancelTask taskID userID = Some True"

section \<open>Execution controller\<close>

text \<open>
  The tables behind \<^verbatim>\<open>ec.DB\<close> are maps from primary key to row; \<^verbatim>\<open>Create\<close> fails on
  an existing key, \<^verbatim>\<open>Save\<close> writes the row under the key the record carries (update,
  or insert when no row has that key).
\<close>

type_synonym executions = "string \<rightharpoonup> CodeExecution"

record world =
  datasets :: "string \<rightharpoonup> Dataset"
  executions :: executions
  counters :: redis

text \<open>
  What a request reads from its environment: whether the counter store answers, the
  clock (Unix seconds, formatted date, nanoseconds) and a new UUID.
\<close>

record env =
  store_up :: bool
  unix :: int
  date :: string
  new_uuid :: string
  unix_nano :: int

definition Save :: "executions \<Rightarrow> CodeExecution \<Rightarrow> executions" where
  "Save db execution = db(ID execution \<mapsto> execution)"

definition isAdmin :: "User \<Rightarrow> bool" where
  "isAdmin user = (''admin'' \<in> set (Roles user))"

text \<open>\<^verbatim>\<open>ExecuteCode\<close>, lines 75 to 92: the cap and the timeout of the task.\<close>

definition maxExecutionTime :: "Config \<Rightarrow> unmarshal \<Rightarrow> User \<Rightarrow> int" where
  "maxExecutionTime cfg unmarshal user =
     (if length (Quota user) > 0 then
        (case unmarshal (Quota user) of
           None \<Rightarrow> ContainerTimeout cfg
         | Some quotaMap \<Rightarrow>
             (case quotaMap ''max_execution_time'' of
                None \<Rightarrow> ContainerTimeout cfg
              | Some quota \<Rightarrow> if quota > 0 then quota else ContainerTimeout cfg))
      else ContainerTimeout cfg)"

definition task_timeout :: "Config \<Rightarrow> unmarshal \<Rightarrow> User \<Rightarrow> CodeExecutionRequest \<Rightarrow> int" where
  "task_timeout cfg unmarshal user request =
     (case Timeout request of
        None \<Rightarrow> maxExecutionTime cfg unmarshal user
      | Some t \<Rightarrow>
          if t > 0 \<and> t < maxExecutionTime cfg unmarshal user then t
          else maxExecutionTime cfg unmarshal user)"

text \<open>
  \<^verbatim>\<open>ExecuteCode\<close>. The request is \<open>None\<close> when \<^verbatim>\<open>ShouldBindJSON\<close> fails (the message
  of the 400 is then the binder's, here a fixed text). The third component of the result
  is the task for which \<^verbatim>\<open>go ec.processExecution\<close> is started.
\<close>

definition ExecuteCode ::
  "Config \<Rightarrow> unmarshal \<Rightarrow> env \<Rightarrow> User option \<Rightarrow> CodeExecutionRequest option \<Rightarrow> world \<Rightarrow>
     response \<times> world \<times> string option" where
  "ExecuteCode cfg unmarshal e ctx body w =
     (case ctx of
        None \<Rightarrow> ((500, JError ''User not found in context''), w, None)
      | Some user \<Rightarrow>
     (case body of
        None \<Rightarrow> ((400, JError ''invalid request''), w, None)
      | Some request \<Rightarrow>
     (case datasets w (CodeExecutionRequest.DatasetID request) of
        None \<Rightarrow> ((404, JError ''Dataset not found''), w, None)
      | Some dataset \<Rightarrow>
          if Dataset.UserID dataset \<noteq> User.ID user \<and> \<not> isAdmin user
          then ((403, JError ''You don't have access to this dataset''), w, None)
          else
            (let timeout = task_timeout cfg unmarshal user request;
                 execution = \<lparr>ID = new_uuid e, UserID = User.ID user,
                   DatasetID = CodeExecutionRequest.DatasetID request,
                   Code = CodeExecutionRequest.Code request, Status = ''queued'',
                   Results = [], StartTime = 0, EndTime = 0, Error = []\<rparr>
             in if executions w (ID execution) \<noteq> None
                then ((500, JError ''Failed to record execution''), w, None)
                else
                  (let w = w\<lparr>executions := (executions w)(ID execution \<mapsto> execution)\<rparr> in
                   case SubmitCodeExecution (unix_nano e)
                          (CodeExecutionRequest.DatasetID request)
                          (CodeExecutionRequest.Code request) (Username user) timeout ''normal'' of
                     None \<Rightarrow> ((500, JError ''Failed to submit task to queue''), w, None)
                   | Some taskID \<Rightarrow>
                       (let execution = execution\<lparr>ID := taskID\<rparr>;
                            w = w\<lparr>executions := Save (executions w) execution\<rparr>;
                            w = w\<lparr>counters :=
                                  snd (TrackExecution (store_up e) (1000 * unix e) (date e)
                                         (User.ID user) (counters w))\<rparr>
                        in ((202, JAccepted taskID ''queued'' ''Code submitted for execution''),
                            w, Some taskID)))))))"

text \<open>\<^verbatim>\<open>ExecutionController.GetTaskStatus\<close>: it writes nothing.\<close>

definition GetTaskStatus :: "executions \<Rightarrow> User option \<Rightarrow> string \<Rightarrow> response" where
  "GetTaskStatus db ctx taskID =
     (case ctx of
        None \<Rightarrow> (500, JError ''User not found in context'')
      | Some user \<Rightarrow>
     (case db taskID of
        None \<Rightarrow> (404, JError ''Task not found'')
      | Some execution \<Rightarrow>
          if UserID execution \<noteq> User.ID user \<and> \<not> isAdmin user
          then (403, JError ''You don't have permission to view this task'')
          else
            (case TaskQueue_GetTaskStatus taskID of
               None \<Rightarrow> (500, JError ''Failed to get task status'')
             | Some status \<Rightarrow> (200, JTask status))))"

text \<open>\<^verbatim>\<open>ExecutionController.CancelTask\<close>, at time \<open>now\<close>.\<close>

definition CancelTask :: "int \<Rightarrow> executions \<Rightarrow> User option \<Rightarrow> string \<Rightarrow> response \<times> executions" where
  "CancelTask now db ctx taskID =
     (case ctx of
        None \<Rightarrow> ((500, JError ''User not found in context''), db)
      | Some user \<Rightarrow>
     (case db taskID of
        None \<Rightarrow> ((404, JError ''Task not found''), db)
      | Some execution \<Rightarrow>
          if UserID execution \<noteq> User.ID user \<and> \<not> isAdmin user
          then ((403, JError ''You don't have permission to cancel this task''), db)
          else
            (case TaskQueue_CancelTask taskID (Username user) of
               None \<Rightarrow> ((500, JError ''Failed to cancel task''), db)
             | Some cancelled \<Rightarrow>
                 if \<not> cancelled
                 then ((400, JError
                   ''Failed to cancel task: task may have completed or doesn't exist''), db)
                 else
                   (let execution = execution\<lparr>Status := ''cancelled'', EndTime := now\<rparr>
                    in ((200, JCancelled ''cancelled'' ''Task has been cancelled''),
                        Save db execution)))))"

text \<open>
  \<^verbatim>\<open>processExecution\<close> runs beside the request handlers and touches the table twice, two
  seconds apart: it loads the row and saves it as running, keeping its copy; later it
  saves that copy as completed. The two halves are separate steps, so that other requests
  can fall between them.
\<close>

definition results_text :: string where
  "results_text = ''{\"result\": \"Execution completed successfully.\"}''"

definition processExecution_start ::
  "int \<Rightarrow> executions \<Rightarrow> string \<Rightarrow> CodeExecution option \<times> executions" where
  "processExecution_start now db taskID =
     (case db taskID of
        None \<Rightarrow> (None, db)
      | Some execution \<Rightarrow>
          (let execution = execution\<lparr>Status := ''running'', StartTime := now\<rparr>
           in (Some execution, Save db execution)))"

definition processExecution_finish :: "int \<Rightarrow> executions \<Rightarrow> CodeExecution \<Rightarrow> executions" where
  "processExecution_finish now db execution =
     (let execution = execution\<lparr>Status := ''completed'', EndTime := now,
                                 Results := results_text\<rparr>
      in Save db execution)"

definition processExecution :: "int \<Rightarrow> executions \<Rightarrow> string \<Rightarrow> executions" where
  "processExecution now db taskID =
     (case processExecution_start now db taskID of
        (None, db') \<Rightarrow> db'
      | (Some execution, db') \<Rightarrow> processExecution_finish (now + 2) db' execution)"

text \<open>
  The route \<^verbatim>\<open>POST /execute\<close> behind authentication: the quota middleware, then the
  handler. The store's clock, in milliseconds, is taken at the second that the request
  reads.
\<close>

definition POST_execute ::
  "Config \<Rightarrow> unmarshal \<Rightarrow> env \<Rightarrow> User option \<Rightarrow> CodeExecutionRequest option \<Rightarrow> world \<Rightarrow>
     response \<times> world \<times> string option" where
  "POST_execute cfg unmarshal e ctx body w =
     (case ExecutionQuotaMiddleware cfg unmarshal (store_up e) (1000 * unix e) (date e) ctx
          (counters w) of
        (Abort r, st) \<Rightarrow> (r, w\<lparr>counters := st\<rparr>, None)
      | (Next, st) \<Rightarrow> ExecuteCode cfg unmarshal e ctx body (w\<lparr>counters := st\<rparr>))"

text \<open>A run of submissions of one caller, one environment reading for each.\<close>

fun submissions ::
  "Config \<Rightarrow> unmarshal \<Rightarrow> User option \<Rightarrow> CodeExecutionRequest option \<Rightarrow> world \<Rightarrow> env list \<Rightarrow>
     response list \<times> world" where
  "submissions cfg unmarshal ctx body w [] = ([], w)"
| "submissions cfg unmarshal ctx body w (e # es) =
     (case POST_execute cfg unmarshal e ctx body w of
        (r, w', sp) \<Rightarrow>
          (case submissions cfg unmarshal ctx body w' es of
             (rs, w'') \<Rightarrow> (r # rs, w'')))"

text \<open>The payload that \<^verbatim>\<open>TaskQueue.GetTaskStatus\<close> builds for a task.\<close>

definition pending_payload :: "string \<Rightarrow> TaskStatus" where
  "pending_payload taskID = \<lparr>TaskID = taskID, TaskStatus.Status = ''pending'', Progress = 0,
       TaskStatus.StartTime = 0, TaskStatus.EndTime = 0, TaskStatus.Results = None,
       TaskStatus.Error = []\<rparr>"

section \<open>Handlers and drivers interleaved\<close>

text \<open>
  The handlers and the detached drivers share the table of executions. An event is one
  handler call or one half of a driver; \<open>spawned\<close> holds the tasks whose driver has been
  started with \<^verbatim>\<open>go\<close> and has not read the table yet, \<open>in_flight\<close> the copies that
  drivers hold between their two writes. \<open>Other\<close> stands for every handler that leaves the
  executions alone (datasets, users, the rate limiter). A step is impossible
  (\<open>None\<close>) when a driver is asked to move that does not exist, and when the clock would
  mint a task identity a second time: \<^verbatim>\<open>time.Now().UnixNano()\<close> is taken to give a new
  value at each submission.
\<close>

record system =
  sys_world :: world
  spawned :: "string list"
  in_flight :: "CodeExecution list"

datatype event =
  Post env "User option" "CodeExecutionRequest option"
| Delete int "User option" string
| DriverStart int string
| DriverFinish int string
| Other "string \<rightharpoonup> Dataset" redis

fun step :: "Config \<Rightarrow> unmarshal \<Rightarrow> event \<Rightarrow> system \<Rightarrow> system option" where
  "step cfg unmarshal (Post e ctx body) s =
     (if executions (sys_world s) (''task-'' @ decimal (unix_nano e)) \<noteq> None then None
      else
        (case POST_execute cfg unmarshal e ctx body (sys_world s) of
           (r, w', sp) \<Rightarrow>
             Some (s\<lparr>sys_world := w',
                      spawned := (case sp of None \<Rightarrow> spawned s | Some t \<Rightarrow> t # spawned s)\<rparr>)))"
| "step cfg unmarshal (Delete now ctx taskID) s =
     (case CancelTask now (executions (sys_world s)) ctx taskID of
        (r, db') \<Rightarrow> Some (s\<lparr>sys_world := (sys_world s)\<lparr>executions := db'\<rparr>\<rparr>))"
| "step cfg unmarshal (DriverStart now taskID) s =
     (if taskID \<notin> set (spawned s) then None
      else
        (case processExecution_start now (executions (sys_world s)) taskID of
           (copy, db') \<Rightarrow>
             Some (s\<lparr>sys_world := (sys_world s)\<lparr>executions := db'\<rparr>,
                      spawned := remove1 taskID (spawned s),
                      in_flight := (case copy of None \<Rightarrow> in_flight s | Some x \<Rightarrow> x # in_flight s)\<rparr>)))"
| "step cfg unmarshal (DriverFinish now taskID) s =
     (case find (\<lambda>x. ID x = taskID) (in_flight s) of
        None \<Rightarrow> None
      | Some x \<Rightarrow>
          Some (s\<lparr>sys_world := (sys_world s)
                     \<lparr>executions := processExecution_finish now (executions (sys_world s)) x\<rparr>,
                   in_flight := remove1 x (in_flight s)\<rparr>))"
| "step cfg unmarshal (Other ds cs) s =
     Some (s\<lparr>sys_world := (sys_world s)\<lparr>datasets := ds, counters := cs\<rparr>\<rparr>)"

fun run :: "Config \<Rightarrow> unmarshal \<Rightarrow> event list \<Rightarrow> system \<Rightarrow> system option" where
  "run cfg unmarshal [] s = Some s"
| "run cfg unmarshal (ev # evs) s =
     (case step cfg unmarshal ev s of None \<Rightarrow> None | Some s' \<Rightarrow> run cfg unmarshal evs s')"

definition initial :: "(string \<rightharpoonup> Dataset) \<Rightarrow> redis \<Rightarrow> system" where
  "initial ds cs = \<lparr>sys_world = \<lparr>datasets = ds, executions = Map.empty, counters = cs\<rparr>,
     spawned = [], in_flight = []\<rparr>"

text \<open>What holds of every row, and of the system, in every state a run reaches.\<close>

definition record_ok :: "CodeExecution \<Rightarrow> bool" where
  "record_ok x =
     (Error x = [] \<and>
      (Status x = ''queued'' \<or> Status x = ''running'' \<or> Status x = ''completed'' \<or>
       Status x = ''cancelled'') \<and>
      (Status x = ''queued'' \<or> Status x = ''running'' \<longrightarrow> Results x = []) \<and>
      (Status x = ''completed'' \<longrightarrow> Results x \<noteq> []))"

definition sys_inv :: "system \<Rightarrow> bool" where
  "sys_inv s =
     ((\<forall>k x. executions (sys_world s) k = Some x \<longrightarrow> ID x = k \<and> record_ok x) \<and>
      (\<forall>x\<in>set (in_flight s). Status x = ''running'' \<and> Results x = [] \<and> Error x = [] \<and>
          executions (sys_world s) (ID x) \<noteq> None \<and> ID x \<notin> set (spawned s)) \<and>
      (\<forall>t\<in>set (spawned s). \<exists>x. executions (sys_world s) t = Some x \<and> Results x = []) \<and>
      distinct (spawned s))"

text \<open>The row that \<^verbatim>\<open>ExecuteCode\<close> creates before the queue names the task.\<close>

definition new_row :: "env \<Rightarrow> User \<Rightarrow> CodeExecutionRequest \<Rightarrow> CodeExecution" where
  "new_row e user request = \<lparr>ID = new_uuid e, UserID = User.ID user,
     DatasetID = CodeExecutionRequest.DatasetID request,
     Code = CodeExecutionRequest.Code request, Status = ''queued'',
     Results = [], StartTime = 0, EndTime = 0, Error = []\<rparr>"

section \<open>Example data\<close>

text \<open>
  A configuration with a window of 60 seconds, two requests a window and three
  executions a day; two users, of whom \<open>bob\<close> carries a quota blob that is a JSON array;
  a decoder that accepts one object; one dataset of \<open>alice\<close>.
\<close>

definition example_cfg :: Config where
  "example_cfg = \<lparr>RateLimitWindow = 60, MaxRequestsPerWindow = 2, MaxExecutionsPerDay = 3,
     ContainerTimeout = 300\<rparr>"

definition alice :: User where
  "alice = \<lparr>User.ID = ''u1'', Username = ''alice'', Roles = [''user''], Quota = []\<rparr>"

definition bob :: User where
  "bob = \<lparr>User.ID = ''u2'', Username = ''bob'', Roles = [''user''], Quota = ''[1, 2]''\<rparr>"

definition example_unmarshal :: unmarshal where
  "example_unmarshal s =
     (if s = ''{\"max_executions_per_day\": 2}'' then Some [''max_executions_per_day'' \<mapsto> 2]
      else None)"

definition example_request :: CodeExecutionRequest where
  "example_request = \<lparr>CodeExecutionRequest.DatasetID = ''d1'',
     CodeExecutionRequest.Code = ''print(1)'', Timeout = Some 300\<rparr>"

definition example_datasets :: "string \<rightharpoonup> Dataset" where
  "example_datasets = [''d1'' \<mapsto> \<lparr>Dataset.ID = ''d1'', Dataset.UserID = ''u1''\<rparr>]"

definition example_world :: world where
  "example_world = \<lparr>datasets = example_datasets, executions = Map.empty, counters = Map.empty\<rparr>"

definition example_env :: "int \<Rightarrow> string \<Rightarrow> env" where
  "example_env n u = \<lparr>store_up = True, unix = 1000 * n, date = ''2025-01-01'', new_uuid = u,
     unix_nano = n\<rparr>"

definition example_task :: "string \<Rightarrow> string \<Rightarrow> CodeExecution" where
  "example_task st res = \<lparr>ID = ''task-1'', UserID = ''u1'', DatasetID = ''d1'', Code = ''print(1)'',
     Status = st, Results = res, StartTime = 0, EndTime = 0, Error = []\<rparr>"

lemmas model_defs =
  POST_execute_def ExecutionQuotaMiddleware_def ExecuteCode_def TrackExecution_def
  redis_Get_def redis_Set_def redis_Incr_def redis_Expire_def live_def quota_key_def
  maxExecutions_def maxExecutionTime_def task_timeout_def SubmitCodeExecution_def
  Save_def isAdmin_def decimal_def digits.simps digit_def
  hour_def second_def millisecond_def usePrecise_def formatMs_def formatSec_def go_div_def
  KeepTTL_def
  example_cfg_def alice_def bob_def example_unmarshal_def example_request_def
  example_datasets_def example_world_def example_env_def

section \<open>Properties of the rate limiter\<close>

lemma int64_id: "- (2 ^ 63) \<le> x \<Longrightarrow> x < 2 ^ 63 \<Longrightarrow> int64 x = x"
  by (simp add: int64_def)

lemma window_duration_seconds:
  assumes "0 < RateLimitWindow cfg" and "RateLimitWindow cfg \<le> 9223372036"
  shows "window_duration cfg = RateLimitWindow cfg * second"
proof -
  have a: "int64 (RateLimitWindow cfg) = RateLimitWindow cfg"
    using assms by (intro int64_id) simp_all
  have "RateLimitWindow cfg * second \<le> 9223372036 * second"
    using assms(2) by (simp add: second_def)
  then have b: "RateLimitWindow cfg * second < 2 ^ 63" by (simp add: second_def)
  have c: "- (2 ^ 63) \<le> RateLimitWindow cfg * second"
    using assms(1) by (simp add: second_def)
  show ?thesis unfolding window_duration_def a by (rule int64_id[OF c b])
qed

lemma set_whole_seconds:
  assumes "0 < w"
  shows "redis_Set now st k v (w * second) = st(k \<mapsto> (v, Some (now + 1000 * w)))"
  using assms by (simp add: redis_Set_def usePrecise_def formatSec_def go_div_def second_def)

lemma rate_limit_first:
  assumes "live now st (rate_limit_key sub ip) = None"
  shows "RateLimitMiddleware cfg True now now' sub ip st =
     (Next, redis_Set now' st (rate_limit_key sub ip) 1 (window_duration cfg))"
  using assms
  by (simp add: RateLimitMiddleware_def RateLimit_read_def RateLimit_write_def redis_Get_def)

lemma rate_limit_first_count:
  assumes "live now st (rate_limit_key sub ip) = None"
  shows "fst (RateLimitMiddleware cfg True now now' sub ip st) = Next \<and>
         map_option fst (snd (RateLimitMiddleware cfg True now now' sub ip st)
            (rate_limit_key sub ip)) = Some 1"
  by (simp add: rate_limit_first[OF assms] redis_Set_def)

lemma rate_limit_first_window:
  assumes "live now st (rate_limit_key sub ip) = None"
    and "0 < RateLimitWindow cfg" and "RateLimitWindow cfg \<le> 9223372036"
  shows "RateLimitMiddleware cfg True now now' sub ip st =
     (Next, st(rate_limit_key sub ip \<mapsto> (1, Some (now' + 1000 * RateLimitWindow cfg))))"
  by (simp add: rate_limit_first[OF assms(1)] window_duration_seconds[OF assms(2,3)]
      set_whole_seconds[OF assms(2)])

lemma rate_limit_next:
  assumes "live now st (rate_limit_key sub ip) = Some (c, ex)"
    and "live now' st (rate_limit_key sub ip) = Some (c, ex)"
  shows "RateLimitMiddleware cfg True now now' sub ip st =
     (if c < MaxRequestsPerWindow cfg
      then (Next, st(rate_limit_key sub ip \<mapsto> (c + 1, ex)))
      else (Abort (429, JError ''Too many requests. Please try again later.''), st))"
  using assms
  by (simp add: RateLimitMiddleware_def RateLimit_read_def RateLimit_write_def redis_Get_def
      redis_Incr_def)

lemma admitted_run_Cons:
  "admitted (fst (rate_limit_run cfg sub ip st ((t, t') # ts))) =
     (if fst (RateLimitMiddleware cfg True t t' sub ip st) = Next then 1 else 0) +
     admitted (fst (rate_limit_run cfg sub ip
        (snd (RateLimitMiddleware cfg True t t' sub ip st)) ts))"
  by (simp add: admitted_def split: prod.splits)

lemma rate_limit_run_window:
  "st (rate_limit_key sub ip) = Some (c, Some e) \<Longrightarrow>
   \<forall>(t, t')\<in>set ts. t < e \<and> t' < e \<Longrightarrow>
   admitted (fst (rate_limit_run cfg sub ip st ts)) =
     min (length ts) (nat (MaxRequestsPerWindow cfg - c))"
proof (induction ts arbitrary: st c)
  case Nil
  then show ?case by (simp add: admitted_def)
next
  case (Cons p ts)
  obtain t t' where p: "p = (t, t')" by (cases p)
  let ?k = "rate_limit_key sub ip"
  from Cons.prems p have lt: "live t st ?k = Some (c, Some e)"
    and lt': "live t' st ?k = Some (c, Some e)"
    by (simp_all add: live_def)
  have rest: "\<forall>(t, t')\<in>set ts. t < e \<and> t' < e" using Cons.prems(2) by simp
  show ?case
  proof (cases "c < MaxRequestsPerWindow cfg")
    case True
    let ?st = "st(?k \<mapsto> (c + 1, Some e))"
    have step: "RateLimitMiddleware cfg True t t' sub ip st = (Next, ?st)"
      using rate_limit_next[OF lt lt', of cfg] True by simp
    have "?st ?k = Some (c + 1, Some e)" by simp
    from Cons.IH[of ?st "c + 1", OF this rest]
    have "admitted (fst (rate_limit_run cfg sub ip ?st ts)) =
        min (length ts) (nat (MaxRequestsPerWindow cfg - (c + 1)))" .
    then show ?thesis using True
      by (simp only: p admitted_run_Cons step fst_conv snd_conv) (simp add: min_def; arith)
  next
    case False
    have step: "RateLimitMiddleware cfg True t t' sub ip st =
        (Abort (429, JError ''Too many requests. Please try again later.''), st)"
      using rate_limit_next[OF lt lt', of cfg] False by simp
    from Cons.IH[of st c, OF Cons.prems(1) rest]
    have "admitted (fst (rate_limit_run cfg sub ip st ts)) =
        min (length ts) (nat (MaxRequestsPerWindow cfg - c))" .
    then show ?thesis using False
      by (simp only: p admitted_run_Cons step fst_conv snd_conv) simp
  qed
qed

lemma rate_limit_window_total:
  assumes "live t0 st (rate_limit_key sub ip) = None"
    and "0 < RateLimitWindow cfg" and "RateLimitWindow cfg \<le> 9223372036"
    and "1 \<le> MaxRequestsPerWindow cfg"
    and "\<forall>(t, t')\<in>set ts. T \<le> t \<and> t < T + 1000 * RateLimitWindow cfg \<and>
            T \<le> t' \<and> t' < T + 1000 * RateLimitWindow cfg"
  shows "admitted (fst (rate_limit_run cfg sub ip st ((t0, T) # ts))) =
           min (Suc (length ts)) (nat (MaxRequestsPerWindow cfg))"
proof -
  let ?k = "rate_limit_key sub ip"
  let ?e = "T + 1000 * RateLimitWindow cfg"
  let ?st = "st(?k \<mapsto> (1, Some ?e))"
  have step: "RateLimitMiddleware cfg True t0 T sub ip st = (Next, ?st)"
    using rate_limit_first_window[OF assms(1,2,3)] .
  have "?st ?k = Some (1, Some ?e)" by simp
  moreover have "\<forall>(t, t')\<in>set ts. t < ?e \<and> t' < ?e" using assms(5) by auto
  ultimately have "admitted (fst (rate_limit_run cfg sub ip ?st ts)) =
      min (length ts) (nat (MaxRequestsPerWindow cfg - 1))"
    by (rule rate_limit_run_window[of ?st sub ip 1 ?e ts cfg])
  then show ?thesis using assms(4)
    by (simp only: admitted_run_Cons step fst_conv snd_conv) (simp add: min_def; arith)
qed

lemmas rate_defs =
  RateLimitMiddleware_def RateLimit_read_def RateLimit_write_def window_duration_def int64_def
  redis_Get_def redis_Set_def redis_Incr_def live_def rate_limit_key_def admitted_def
  second_def millisecond_def usePrecise_def formatMs_def formatSec_def go_div_def KeepTTL_def
  example_cfg_def

text \<open>
  C5, amended. For the rate limiter with limit \<open>L\<close> and one identity key, and a request
  between whose two halves no other command reaches the store: a request that finds no
  window creates it with count 1 and is admitted, whatever \<open>L\<close> is; a request that finds
  a window with count \<open>c\<close>, still there at its second half, is admitted and increments
  the counter when \<open>c < L\<close>, leaving the expiry as it is, and is rejected with the store
  untouched when \<open>c \<ge> L\<close>. For a window of \<open>w\<close> seconds with \<open>0 < w \<le> 9223372036\<close>, the
  values for which \<open>w\<close> seconds fit \<^verbatim>\<open>time.Duration\<close>, the window created at \<open>T\<close> expires at
  \<open>T + w\<close> seconds; and then, for \<open>L \<ge> 1\<close>, of the requests served one after another in
  \<open>[T, T + window)\<close>, the first of them creating the window at \<open>T\<close>, exactly \<open>L\<close> are
  admitted (all of them when there are fewer).
\<close>

theorem rate_limit_fixed_window:
  "(live t st (rate_limit_key sub ip) = None \<longrightarrow>
      fst (RateLimitMiddleware cfg True t t' sub ip st) = Next \<and>
      map_option fst (snd (RateLimitMiddleware cfg True t t' sub ip st) (rate_limit_key sub ip)) =
        Some 1) \<and>
   (live t st (rate_limit_key sub ip) = None \<and>
    0 < RateLimitWindow cfg \<and> RateLimitWindow cfg \<le> 9223372036 \<longrightarrow>
      RateLimitMiddleware cfg True t t' sub ip st =
        (Next, st(rate_limit_key sub ip \<mapsto> (1, Some (t' + 1000 * RateLimitWindow cfg))))) \<and>
   (\<forall>c ex. live t st (rate_limit_key sub ip) = Some (c, ex) \<and>
            live t' st (rate_limit_key sub ip) = Some (c, ex) \<longrightarrow>
      RateLimitMiddleware cfg True t t' sub ip st =
        (if c < MaxRequestsPerWindow cfg
         then (Next, st(rate_limit_key sub ip \<mapsto> (c + 1, ex)))
         else (Abort (429, JError ''Too many requests. Please try again later.''), st))) \<and>
   (live t st (rate_limit_key sub ip) = None \<and>
    0 < RateLimitWindow cfg \<and> RateLimitWindow cfg \<le> 9223372036 \<and>
    1 \<le> MaxRequestsPerWindow cfg \<and>
    (\<forall>(u, u')\<in>set ts. t' \<le> u \<and> u < t' + 1000 * RateLimitWindow cfg \<and>
                        t' \<le> u' \<and> u' < t' + 1000 * RateLimitWindow cfg) \<longrightarrow>
      admitted (fst (rate_limit_run cfg sub ip st ((t, t') # ts))) =
        min (Suc (length ts)) (nat (MaxRequestsPerWindow cfg)))"
  using rate_limit_first_count[of t st sub ip cfg t']
    rate_limit_first_window[of t st sub ip cfg t']
    rate_limit_next[of t st sub ip _ _ t' cfg]
    rate_limit_window_total[of t st sub ip cfg ts t']
  by blast

theorem rate_limit_fixed_window_witness:
  "live 1000 Map.empty (rate_limit_key (Some ''u1'') ''10.0.0.1'') = None \<and>
   RateLimitMiddleware example_cfg True 1000 1001 (Some ''u1'') ''10.0.0.1'' Map.empty =
     (Next, [''ratelimit:u1'' \<mapsto> (1, Some 61001)]) \<and>
   live 2000 [''ratelimit:u1'' \<mapsto> (2, Some 61001)] (rate_limit_key (Some ''u1'') ''10.0.0.1'') =
     Some (2, Some 61001) \<and>
   live 2001 [''ratelimit:u1'' \<mapsto> (2, Some 61001)] (rate_limit_key (Some ''u1'') ''10.0.0.1'') =
     Some (2, Some 61001) \<and>
   RateLimitMiddleware example_cfg True 2000 2001 (Some ''u1'') ''10.0.0.1''
       [''ratelimit:u1'' \<mapsto> (2, Some 61001)] =
     (Abort (429, JError ''Too many requests. Please try again later.''),
      [''ratelimit:u1'' \<mapsto> (2, Some 61001)]) \<and>
   admitted (fst (rate_limit_run example_cfg (Some ''u1'') ''10.0.0.1'' Map.empty
      [(1000, 1001), (2000, 2001), (3000, 3002), (61000, 61000)])) = 2"
  using rate_limit_fixed_window[of 1000 Map.empty "Some ''u1''" "''10.0.0.1''" example_cfg 1001
      "[(2000, 2001), (3000, 3002), (61000, 61000)]"]
    rate_limit_fixed_window[of 2000 "[''ratelimit:u1'' \<mapsto> (2, Some 61001)]" "Some ''u1''"
      "''10.0.0.1''" example_cfg 2001 "[]"]
  by (simp add: rate_defs)

text \<open>
  Against C5 as the claim has it. With the limit 0 the request that creates the window
  is admitted, one request and not none. With the limit 2, when two requests read the
  count 1 before either of them writes, both increment and both are admitted, three
  requests in the window with the first. With a window of 18446744074 seconds the
  duration wraps to 290448384 nanoseconds, the key lives 290 milliseconds, and three
  requests a second apart each create a window and are admitted.
\<close>

theorem rate_limit_exactly_L_counterexample:
  "MaxRequestsPerWindow (example_cfg\<lparr>MaxRequestsPerWindow := 0\<rparr>) = 0 \<and>
   admitted (fst (rate_limit_run (example_cfg\<lparr>MaxRequestsPerWindow := 0\<rparr>) (Some ''u1'')
      ''10.0.0.1'' Map.empty [(1000, 1000)])) = 1 \<and>
   MaxRequestsPerWindow example_cfg = 2 \<and>
   RateLimitMiddleware example_cfg True 1000 1000 (Some ''u1'') ''10.0.0.1'' Map.empty =
     (Next, [''ratelimit:u1'' \<mapsto> (1, Some 61000)]) \<and>
   RateLimit_read True 2000 (Some ''u1'') ''10.0.0.1'' [''ratelimit:u1'' \<mapsto> (1, Some 61000)] =
     RedisVal 1 \<and>
   RateLimit_write example_cfg 2001 (Some ''u1'') ''10.0.0.1'' (RedisVal 1)
       [''ratelimit:u1'' \<mapsto> (1, Some 61000)] =
     (Next, [''ratelimit:u1'' \<mapsto> (2, Some 61000)]) \<and>
   RateLimit_write example_cfg 2002 (Some ''u1'') ''10.0.0.1'' (RedisVal 1)
       [''ratelimit:u1'' \<mapsto> (2, Some 61000)] =
     (Next, [''ratelimit:u1'' \<mapsto> (3, Some 61000)]) \<and>
   window_duration (example_cfg\<lparr>RateLimitWindow := 18446744074\<rparr>) = 290448384 \<and>
   admitted (fst (rate_limit_run (example_cfg\<lparr>RateLimitWindow := 18446744074\<rparr>) (Some ''u1'')
      ''10.0.0.1'' Map.empty [(1000, 1000), (2000, 2000), (3000, 3000)])) = 3"
  by (simp add: rate_defs)

text \<open>
  C10. When the read of the rate-limit counter fails with an error other than
  key-not-found, the request is admitted and the store is left as it was: no counter is
  created or incremented.
\<close>

theorem rate_limit_fails_open:
  "RateLimitMiddleware cfg False now now' sub ip st = (Next, st)"
  by (simp add: RateLimitMiddleware_def RateLimit_read_def RateLimit_write_def redis_Get_def)

text \<open>Neither middleware moves the expiry of a window that exists.\<close>

lemma live_Some_stored: "live now st k = Some (c, ex) \<Longrightarrow> st k = Some (c, ex)"
  by (auto simp add: live_def split: option.splits if_splits)

lemma rate_limit_keeps_expiry:
  assumes "live now st (rate_limit_key sub ip) = Some (c, ex)"
    and "live now' st (rate_limit_key sub ip) = Some (c, ex)"
  shows "map_option snd (snd (RateLimitMiddleware cfg up now now' sub ip st)
           (rate_limit_key sub ip)) = Some ex"
  using assms live_Some_stored[OF assms(1)]
  by (simp add: RateLimitMiddleware_def RateLimit_read_def RateLimit_write_def redis_Get_def
      redis_Incr_def Let_def)

lemma quota_middleware_keeps_expiry:
  assumes "live now st (quota_key (User.ID user) today) = Some (c, ex)"
  shows "map_option snd (snd (ExecutionQuotaMiddleware cfg unmarshal up now today (Some user) st)
      (quota_key (User.ID user) today)) = Some ex"
  using assms live_Some_stored[OF assms]
  by (simp add: ExecutionQuotaMiddleware_def redis_Get_def redis_Incr_def Let_def)

section \<open>Properties of the execution quota\<close>

text \<open>\<^verbatim>\<open>TrackExecution\<close> counts the execution once more and sets the expiry anew.\<close>

lemma day_duration: "formatSec (24 * hour) = 86400" "\<not> usePrecise (24 * hour)"
  by (simp_all add: formatSec_def usePrecise_def go_div_def hour_def second_def)

lemma live_update_same:
  "live now st k = Some (c, ex) \<Longrightarrow> live now (st(k \<mapsto> (c', ex))) k = Some (c', ex)"
  by (auto simp add: live_def split: option.splits if_splits)

lemma track_execution_live:
  assumes "live now st (quota_key userID today) = Some (c, ex)"
  shows "snd (TrackExecution True now today userID st) =
     st(quota_key userID today \<mapsto> (c + 1, Some (now + 86400000)))"
  using assms live_update_same[OF assms, of "c + 1"]
  by (simp add: TrackExecution_def redis_Incr_def redis_Expire_def day_duration Let_def)

text \<open>An accepted submission that finds its window moves the counter by two.\<close>

lemma accepted_submission_counts_twice:
  assumes "live now st (quota_key (User.ID user) today) = Some (c, ex)"
    and "c < maxExecutions cfg unmarshal user"
  shows "snd (TrackExecution True now today (User.ID user)
            (snd (ExecutionQuotaMiddleware cfg unmarshal True now today (Some user) st)))
           (quota_key (User.ID user) today) = Some (c + 2, Some (now + 86400000))"
proof -
  let ?k = "quota_key (User.ID user) today"
  have m: "ExecutionQuotaMiddleware cfg unmarshal True now today (Some user) st =
      (Next, st(?k \<mapsto> (c + 1, ex)))"
    using assms by (simp add: ExecutionQuotaMiddleware_def redis_Get_def redis_Incr_def Let_def)
  have "live now (st(?k \<mapsto> (c + 1, ex))) ?k = Some (c + 1, ex)"
    using assms(1) by (rule live_update_same)
  from track_execution_live[OF this] show ?thesis by (simp add: m)
qed

text \<open>
  C1. The claim: with an effective daily limit \<open>L\<close>, \<open>N \<le> L\<close> submissions within one day
  are all admitted and submission \<open>L + 1\<close> is rejected. The code counts every accepted
  submission twice, once in \<^verbatim>\<open>ExecutionQuotaMiddleware\<close> and once more in
  \<^verbatim>\<open>TrackExecution\<close>: with the limit 3 and no quota of the user's own, the first two
  submissions of a day are accepted with 202 and the third is rejected with 429.
\<close>

theorem quota_third_submission_rejected:
  "maxExecutions example_cfg example_unmarshal alice = 3 \<and>
   map fst (fst (submissions example_cfg example_unmarshal (Some alice) (Some example_request)
      example_world [example_env 1 ''a'', example_env 2 ''b'', example_env 3 ''c''])) =
     [202, 202, 429]"
  by (simp add: model_defs)

text \<open>
  C6. The claim: the expiry of a counter window is set when the key is created and no
  later increment extends it. For the quota window the code sets it again at every
  accepted submission: the window created at the second 1000 expires at the millisecond
  87400000, a day later, and after a second submission at the second 2000 it expires at
  88400000.
\<close>

theorem track_execution_extends_expiry:
  "counters (fst (snd (POST_execute example_cfg example_unmarshal (example_env 1 ''a'') (Some alice)
      (Some example_request) example_world))) (quota_key ''u1'' ''2025-01-01'') =
     Some (2, Some 87400000) \<and>
   counters (snd (submissions example_cfg example_unmarshal (Some alice) (Some example_request)
      example_world [example_env 1 ''a'', example_env 2 ''b'']))
      (quota_key ''u1'' ''2025-01-01'') = Some (4, Some 88400000)"
  by (simp add: model_defs)

text \<open>
  C9. When the quota blob of the user is absent or does not decode, the daily limit is
  \<^verbatim>\<open>MaxExecutionsPerDay\<close>, the cap of the task's timeout is \<^verbatim>\<open>ContainerTimeout\<close>, and the
  submission is answered exactly as that of the same user without a blob: the blob
  rejects nothing.
\<close>

theorem malformed_quota_falls_back:
  assumes "Quota user = [] \<or> unmarshal (Quota user) = None"
  shows "maxExecutions cfg unmarshal user = MaxExecutionsPerDay cfg \<and>
         maxExecutionTime cfg unmarshal user = ContainerTimeout cfg \<and>
         POST_execute cfg unmarshal e (Some user) body w =
           POST_execute cfg unmarshal e (Some (user\<lparr>Quota := []\<rparr>)) body w"
proof -
  have a: "maxExecutions cfg unmarshal user = MaxExecutionsPerDay cfg"
    using assms by (auto simp add: maxExecutions_def)
  have b: "maxExecutionTime cfg unmarshal user = ContainerTimeout cfg"
    using assms by (auto simp add: maxExecutionTime_def)
  have a': "maxExecutions cfg unmarshal (user\<lparr>Quota := []\<rparr>) = MaxExecutionsPerDay cfg"
    by (simp add: maxExecutions_def)
  have b': "maxExecutionTime cfg unmarshal (user\<lparr>Quota := []\<rparr>) = ContainerTimeout cfg"
    by (simp add: maxExecutionTime_def)
  have c: "ExecutionQuotaMiddleware cfg unmarshal up now today (Some user) st =
           ExecutionQuotaMiddleware cfg unmarshal up now today (Some (user\<lparr>Quota := []\<rparr>)) st"
    for up now today st
    by (simp add: ExecutionQuotaMiddleware_def a a' Let_def split: get_reply.split)
  have d: "ExecuteCode cfg unmarshal e (Some user) body w' =
           ExecuteCode cfg unmarshal e (Some (user\<lparr>Quota := []\<rparr>)) body w'" for w'
  proof -
    have tt: "task_timeout cfg unmarshal user request =
              task_timeout cfg unmarshal (user\<lparr>Quota := []\<rparr>) request" for request
      by (simp add: task_timeout_def b b' split: option.split)
    show ?thesis
      by (simp add: ExecuteCode_def tt isAdmin_def Let_def split: option.split)
  qed
  show ?thesis by (simp add: a b POST_execute_def c d split: prod.split outcome.split)
qed

theorem malformed_quota_falls_back_witness:
  "example_unmarshal (Quota bob) = None \<and>
   maxExecutions example_cfg example_unmarshal bob = 3 \<and>
   maxExecutionTime example_cfg example_unmarshal bob = 300 \<and>
   fst (POST_execute example_cfg example_unmarshal (example_env 1 ''a'') (Some bob)
          (Some (example_request\<lparr>CodeExecutionRequest.DatasetID := ''d2''\<rparr>))
          (example_world\<lparr>datasets := [''d2'' \<mapsto> \<lparr>Dataset.ID = ''d2'', Dataset.UserID = ''u2''\<rparr>]\<rparr>)) =
     (202, JAccepted ''task-1'' ''queued'' ''Code submitted for execution'')"
  using malformed_quota_falls_back[of bob example_unmarshal example_cfg "example_env 1 ''a''"
      "Some (example_request\<lparr>CodeExecutionRequest.DatasetID := ''d2''\<rparr>)"
      "example_world\<lparr>datasets := [''d2'' \<mapsto> \<lparr>Dataset.ID = ''d2'', Dataset.UserID = ''u2''\<rparr>]\<rparr>"]
  by (simp add: model_defs)

section \<open>Properties of the task handlers\<close>

lemma get_forbidden:
  "db taskID = Some execution \<Longrightarrow> UserID execution \<noteq> User.ID user \<Longrightarrow> \<not> isAdmin user \<Longrightarrow>
   GetTaskStatus db (Some user) taskID =
     (403, JError ''You don't have permission to view this task'')"
  by (simp add: GetTaskStatus_def)

lemma cancel_forbidden:
  "db taskID = Some execution \<Longrightarrow> UserID execution \<noteq> User.ID user \<Longrightarrow> \<not> isAdmin user \<Longrightarrow>
   CancelTask now db (Some user) taskID =
     ((403, JError ''You don't have permission to cancel this task''), db)"
  by (simp add: CancelTask_def)

lemma cancel_allowed:
  "db taskID = Some execution \<Longrightarrow> UserID execution = User.ID user \<or> isAdmin user \<Longrightarrow>
   CancelTask now db (Some user) taskID =
     ((200, JCancelled ''cancelled'' ''Task has been cancelled''),
      Save db (execution\<lparr>Status := ''cancelled'', EndTime := now\<rparr>))"
  by (auto simp add: CancelTask_def TaskQueue_CancelTask_def)

lemma cancel_unknown:
  "db taskID = None \<Longrightarrow> CancelTask now db (Some user) taskID = ((404, JError ''Task not found''), db)"
  by (simp add: CancelTask_def)

lemma get_allowed:
  "db taskID = Some execution \<Longrightarrow> UserID execution = User.ID user \<or> isAdmin user \<Longrightarrow>
   GetTaskStatus db (Some user) taskID = (200, JTask (pending_payload taskID))"
  by (auto simp add: GetTaskStatus_def TaskQueue_GetTaskStatus_def pending_payload_def)

lemma start_existing:
  "db taskID = Some execution \<Longrightarrow>
   processExecution_start now db taskID =
     (Some (execution\<lparr>Status := ''running'', StartTime := now\<rparr>),
      Save db (execution\<lparr>Status := ''running'', StartTime := now\<rparr>))"
  by (simp add: processExecution_start_def Let_def)

lemma process_existing:
  "db taskID = Some execution \<Longrightarrow>
   processExecution now db taskID =
     Save (Save db (execution\<lparr>Status := ''running'', StartTime := now\<rparr>))
       (execution\<lparr>Status := ''running'', StartTime := now\<rparr>
          \<lparr>Status := ''completed'', EndTime := now + 2, Results := results_text\<rparr>)"
  by (simp add: processExecution_def processExecution_start_def processExecution_finish_def Let_def)

text \<open>
  C8. For a task and an authenticated user who neither owns it nor holds the role admin,
  \<^verbatim>\<open>GET /tasks/{task_id}\<close> and \<^verbatim>\<open>DELETE /tasks/{task_id}\<close> both answer 403, and the table
  of executions is as before.
\<close>

theorem foreign_task_forbidden:
  assumes "db taskID = Some execution" and "UserID execution \<noteq> User.ID user"
    and "''admin'' \<notin> set (Roles user)"
  shows "fst (GetTaskStatus db (Some user) taskID) = 403 \<and>
         fst (fst (CancelTask now db (Some user) taskID)) = 403 \<and>
         snd (CancelTask now db (Some user) taskID) = db"
  using assms get_forbidden[of db taskID execution user]
    cancel_forbidden[of db taskID execution user now]
  by (simp add: isAdmin_def)

theorem foreign_task_forbidden_witness:
  "fst (GetTaskStatus [''task-1'' \<mapsto> example_task ''running'' []] (Some bob) ''task-1'') = 403 \<and>
   fst (fst (CancelTask 5000 [''task-1'' \<mapsto> example_task ''running'' []] (Some bob) ''task-1'')) = 403 \<and>
   snd (CancelTask 5000 [''task-1'' \<mapsto> example_task ''running'' []] (Some bob) ''task-1'') =
     [''task-1'' \<mapsto> example_task ''running'' []]"
  using foreign_task_forbidden[of "[''task-1'' \<mapsto> example_task ''running'' []]" "''task-1''"
      "example_task ''running'' []" bob 5000]
  by (simp add: example_task_def bob_def)

text \<open>
  C3, amended. \<open>cancel(task_id, requester)\<close> returns true, and never an error, for every
  task identity and requester: the queue does not look at the task. Whether the task
  exists is settled by the handler before the queue is asked: \<^verbatim>\<open>DELETE\<close> on an unknown
  task answers 404 and changes nothing, and \<^verbatim>\<open>DELETE\<close> by the owner or an admin on an
  existing task, whatever its status, answers 200 and records the status cancelled with
  the end time.
\<close>

theorem queue_cancel_always_true:
  "TaskQueue_CancelTask taskID (Username user) = Some True \<and>
   (db taskID = None \<longrightarrow>
      CancelTask now db (Some user) taskID = ((404, JError ''Task not found''), db)) \<and>
   (\<forall>execution. db taskID = Some execution \<and>
        (UserID execution = User.ID user \<or> ''admin'' \<in> set (Roles user)) \<longrightarrow>
      CancelTask now db (Some user) taskID =
        ((200, JCancelled ''cancelled'' ''Task has been cancelled''),
         db(ID execution \<mapsto> execution\<lparr>Status := ''cancelled'', EndTime := now\<rparr>)))"
  using cancel_unknown[of db taskID now user] cancel_allowed[of db taskID _ user now]
  by (simp add: TaskQueue_CancelTask_def isAdmin_def Save_def)

theorem queue_cancel_always_true_witness:
  "TaskQueue_CancelTask ''task-1'' (Username alice) = Some True \<and>
   CancelTask 5000 Map.empty (Some alice) ''task-1'' = ((404, JError ''Task not found''), Map.empty) \<and>
   CancelTask 5000 [''task-1'' \<mapsto> example_task ''cancelled'' []] (Some alice) ''task-1'' =
     ((200, JCancelled ''cancelled'' ''Task has been cancelled''),
      [''task-1'' \<mapsto> (example_task ''cancelled'' [])\<lparr>EndTime := 5000\<rparr>])"
  using queue_cancel_always_true[of "''task-1''" alice Map.empty 5000]
    queue_cancel_always_true[of "''task-1''" alice "[''task-1'' \<mapsto> example_task ''cancelled'' []]" 5000]
  by (simp add: example_task_def alice_def)

text \<open>
  Against C3 as the claim has it: the queue answers true for a task that is already
  cancelled, so that a second \<^verbatim>\<open>DELETE\<close> is answered 200 again, and for a task that
  does not exist.
\<close>

theorem cancel_twice_counterexample:
  "Status (example_task ''cancelled'' []) = ''cancelled'' \<and>
   TaskQueue_CancelTask ''task-1'' ''alice'' = Some True \<and>
   fst (CancelTask 5000 [''task-1'' \<mapsto> example_task ''cancelled'' []] (Some alice) ''task-1'') =
     (200, JCancelled ''cancelled'' ''Task has been cancelled'') \<and>
   (Map.empty :: executions) ''task-9'' = None \<and>
   TaskQueue_CancelTask ''task-9'' ''alice'' = Some True"
  by (simp add: example_task_def alice_def CancelTask_def TaskQueue_CancelTask_def)

text \<open>
  C4, amended. For every existing task queried by its owner (or by an admin),
  \<^verbatim>\<open>GET /tasks/{task_id}\<close> answers 200 with the payload of the queue: the task identity, the
  status pending, progress 0, no times, no results and no error, whatever the status of
  the row, right after the submission and after the completion alike.
\<close>

theorem get_status_always_pending:
  assumes "db taskID = Some execution"
    and "UserID execution = User.ID user \<or> ''admin'' \<in> set (Roles user)"
  shows "GetTaskStatus db (Some user) taskID =
           (200, JTask \<lparr>TaskID = taskID, TaskStatus.Status = ''pending'', Progress = 0,
              TaskStatus.StartTime = 0, TaskStatus.EndTime = 0, TaskStatus.Results = None,
              TaskStatus.Error = []\<rparr>)"
  using assms get_allowed[of db taskID execution user]
  by (simp add: isAdmin_def pending_payload_def)

theorem get_status_always_pending_witness:
  "GetTaskStatus [''task-1'' \<mapsto> example_task ''completed'' results_text] (Some alice) ''task-1'' =
     (200, JTask \<lparr>TaskID = ''task-1'', TaskStatus.Status = ''pending'', Progress = 0,
        TaskStatus.StartTime = 0, TaskStatus.EndTime = 0, TaskStatus.Results = None,
        TaskStatus.Error = []\<rparr>)"
  using get_status_always_pending[of "[''task-1'' \<mapsto> example_task ''completed'' results_text]"
      "''task-1''" "example_task ''completed'' results_text" alice]
  by (simp add: example_task_def alice_def)

text \<open>
  Against C4 as the claim has it: right after the submission, and again after the driver
  has completed the task, \<^verbatim>\<open>GET /tasks/task-1\<close> by the owner answers with the status
  pending and no results, while the row is queued and then completed with results.
\<close>

theorem get_after_completion_counterexample:
  "executions (fst (snd (POST_execute example_cfg example_unmarshal (example_env 1 ''a'')
      (Some alice) (Some example_request) example_world))) ''task-1'' =
     Some (example_task ''queued'' []) \<and>
   processExecution 1001 [''task-1'' \<mapsto> example_task ''queued'' []] ''task-1'' =
     [''task-1'' \<mapsto> (example_task ''completed'' results_text)\<lparr>StartTime := 1001, EndTime := 1003\<rparr>] \<and>
   GetTaskStatus [''task-1'' \<mapsto> example_task ''queued'' []] (Some alice) ''task-1'' =
     (200, JTask (pending_payload ''task-1'')) \<and>
   GetTaskStatus
     [''task-1'' \<mapsto> (example_task ''completed'' results_text)\<lparr>StartTime := 1001, EndTime := 1003\<rparr>]
     (Some alice) ''task-1'' = (200, JTask (pending_payload ''task-1'')) \<and>
   TaskStatus.Status (pending_payload ''task-1'') = ''pending'' \<and>
   TaskStatus.Results (pending_payload ''task-1'') = None"
  by (simp add: model_defs example_task_def processExecution_def processExecution_start_def
      processExecution_finish_def GetTaskStatus_def TaskQueue_GetTaskStatus_def pending_payload_def
      Let_def)

text \<open>
  C2, amended. Terminal statuses are not absorbing in the task record: every status
  write is unconditional. For an existing task, a cancel request by the owner or an admin
  sets the status to cancelled whatever it was, and the driver sets it to running and
  then to completed whatever it was, a cancelled task included. None of this shows
  through \<open>get_status\<close>, whose payload reports the status pending for every task.
\<close>

theorem status_writes_unconditional:
  assumes "db taskID = Some execution" and "ID execution = taskID"
    and "UserID execution = User.ID user \<or> ''admin'' \<in> set (Roles user)"
  shows "snd (CancelTask now db (Some user) taskID) taskID =
           Some (execution\<lparr>Status := ''cancelled'', EndTime := now\<rparr>) \<and>
         snd (processExecution_start now db taskID) taskID =
           Some (execution\<lparr>Status := ''running'', StartTime := now\<rparr>) \<and>
         processExecution now db taskID taskID =
           Some (execution\<lparr>Status := ''running'', StartTime := now\<rparr>
                   \<lparr>Status := ''completed'', EndTime := now + 2, Results := results_text\<rparr>) \<and>
         GetTaskStatus db (Some user) taskID = (200, JTask (pending_payload taskID))"
  using assms cancel_allowed[of db taskID execution user now]
    start_existing[of db taskID execution now] process_existing[of db taskID execution now]
    get_allowed[of db taskID execution user]
  by (simp add: isAdmin_def Save_def)

theorem status_writes_unconditional_witness:
  "snd (CancelTask 5000 [''task-1'' \<mapsto> example_task ''completed'' results_text] (Some alice) ''task-1'')
      ''task-1'' = Some ((example_task ''cancelled'' results_text)\<lparr>EndTime := 5000\<rparr>) \<and>
   processExecution 5000 [''task-1'' \<mapsto> example_task ''cancelled'' []] ''task-1'' ''task-1'' =
     Some ((example_task ''completed'' results_text)\<lparr>StartTime := 5000, EndTime := 5002\<rparr>)"
  using status_writes_unconditional[of "[''task-1'' \<mapsto> example_task ''completed'' results_text]"
      "''task-1''" "example_task ''completed'' results_text" alice 5000]
    status_writes_unconditional[of "[''task-1'' \<mapsto> example_task ''cancelled'' []]"
      "''task-1''" "example_task ''cancelled'' []" alice 5000]
  by (simp add: example_task_def alice_def)

text \<open>
  Against C2 as the claim has it: \<^verbatim>\<open>DELETE\<close> by the owner turns a completed task into
  a cancelled one, and the driver, started on a task that is already cancelled, writes
  running and then completed.
\<close>

theorem terminal_not_absorbing_counterexample:
  "snd (CancelTask 5000 [''task-1'' \<mapsto> example_task ''completed'' results_text] (Some alice) ''task-1'') =
     [''task-1'' \<mapsto> (example_task ''cancelled'' results_text)\<lparr>EndTime := 5000\<rparr>] \<and>
   processExecution_start 5000 [''task-1'' \<mapsto> example_task ''cancelled'' []] ''task-1'' =
     (Some ((example_task ''running'' [])\<lparr>StartTime := 5000\<rparr>),
      [''task-1'' \<mapsto> (example_task ''running'' [])\<lparr>StartTime := 5000\<rparr>]) \<and>
   processExecution 5000 [''task-1'' \<mapsto> example_task ''cancelled'' []] ''task-1'' =
     [''task-1'' \<mapsto> (example_task ''completed'' results_text)\<lparr>StartTime := 5000, EndTime := 5002\<rparr>]"
  by (simp add: example_task_def alice_def CancelTask_def TaskQueue_CancelTask_def Save_def
      isAdmin_def processExecution_def processExecution_start_def processExecution_finish_def
      Let_def)

section \<open>Task records in every reachable state\<close>

lemma new_row_ok:
  "record_ok (new_row e user request)"
  "record_ok ((new_row e user request)\<lparr>ID := t\<rparr>)"
  "Results (new_row e user request) = []"
  "ID (new_row e user request) = new_uuid e"
  by (simp_all add: record_ok_def new_row_def)

lemma ExecuteCode_effect:
  assumes "ExecuteCode cfg unmarshal e ctx body w = (r, w', sp)"
  shows "(sp = None \<and> executions w' = executions w) \<or>
         (sp = Some (''task-'' @ decimal (unix_nano e)) \<and>
            executions w (new_uuid e) = None \<and>
            executions w' = (executions w)
              (new_uuid e \<mapsto> new_row e (the ctx) (the body),
               ''task-'' @ decimal (unix_nano e) \<mapsto>
                 (new_row e (the ctx) (the body))\<lparr>ID := ''task-'' @ decimal (unix_nano e)\<rparr>))"
  using assms
  by (auto simp add: ExecuteCode_def SubmitCodeExecution_def Save_def new_row_def Let_def
      split: option.splits if_splits)

lemma POST_effect:
  assumes "POST_execute cfg unmarshal e ctx body w = (r, w', sp)"
  shows "(sp = None \<and> executions w' = executions w) \<or>
         (sp = Some (''task-'' @ decimal (unix_nano e)) \<and>
            executions w (new_uuid e) = None \<and>
            executions w' = (executions w)
              (new_uuid e \<mapsto> new_row e (the ctx) (the body),
               ''task-'' @ decimal (unix_nano e) \<mapsto>
                 (new_row e (the ctx) (the body))\<lparr>ID := ''task-'' @ decimal (unix_nano e)\<rparr>))"
proof (cases "ExecutionQuotaMiddleware cfg unmarshal (store_up e) (1000 * unix e) (date e) ctx
          (counters w)")
  case (Pair out st)
  show ?thesis
  proof (cases out)
    case (Abort r')
    with Pair assms show ?thesis by (auto simp add: POST_execute_def)
  next
    case Next
    with Pair assms have "ExecuteCode cfg unmarshal e ctx body (w\<lparr>counters := st\<rparr>) = (r, w', sp)"
      by (simp add: POST_execute_def)
    from ExecuteCode_effect[OF this] show ?thesis by simp
  qed
qed

lemma sys_inv_initial: "sys_inv (initial ds cs)"
  by (simp add: sys_inv_def initial_def)

lemma sys_inv_post:
  assumes inv: "sys_inv s" and st: "step cfg unmarshal (Post e ctx body) s = Some s'"
  shows "sys_inv s'"
proof -
  let ?t = "''task-'' @ decimal (unix_nano e)"
  let ?db = "executions (sys_world s)"
  from st have fresh: "?db ?t = None" by (simp split: if_splits)
  obtain r w' sp where P: "POST_execute cfg unmarshal e ctx body (sys_world s) = (r, w', sp)"
    by (cases "POST_execute cfg unmarshal e ctx body (sys_world s)") auto
  with st fresh have s': "s' = s\<lparr>sys_world := w',
      spawned := (case sp of None \<Rightarrow> spawned s | Some t \<Rightarrow> t # spawned s)\<rparr>"
    by simp
  from POST_effect[OF P] show ?thesis
  proof
    assume "sp = None \<and> executions w' = ?db"
    with inv s' show ?thesis by (simp add: sys_inv_def)
  next
    assume A: "sp = Some ?t \<and> ?db (new_uuid e) = None \<and>
      executions w' = ?db(new_uuid e \<mapsto> new_row e (the ctx) (the body),
         ?t \<mapsto> (new_row e (the ctx) (the body))\<lparr>ID := ?t\<rparr>)"
    let ?row = "new_row e (the ctx) (the body)"
    from A have sp: "sp = Some ?t" and nu: "?db (new_uuid e) = None"
      and db': "executions w' = ?db(new_uuid e \<mapsto> ?row, ?t \<mapsto> ?row\<lparr>ID := ?t\<rparr>)" by auto
    from inv have i1: "\<And>k x. ?db k = Some x \<Longrightarrow> ID x = k \<and> record_ok x"
      and i2: "\<And>x. x \<in> set (in_flight s) \<Longrightarrow> Status x = ''running'' \<and> Results x = [] \<and>
          Error x = [] \<and> ?db (ID x) \<noteq> None \<and> ID x \<notin> set (spawned s)"
      and i3: "\<And>t. t \<in> set (spawned s) \<Longrightarrow> \<exists>x. ?db t = Some x \<and> Results x = []"
      and i4: "distinct (spawned s)"
      by (auto simp add: sys_inv_def)
    have t_new: "?t \<notin> set (spawned s)" using i3 fresh by fastforce
    have u_new: "new_uuid e \<notin> set (spawned s)" using i3 nu by fastforce
    have c1: "\<forall>k x. executions (sys_world s') k = Some x \<longrightarrow> ID x = k \<and> record_ok x"
      using i1 by (auto simp add: s' db' new_row_ok split: if_splits)
    have fl: "ID x \<noteq> ?t" if "x \<in> set (in_flight s)" for x
      using i2[OF that] fresh by auto
    have c2: "\<forall>x\<in>set (in_flight s'). Status x = ''running'' \<and> Results x = [] \<and> Error x = [] \<and>
          executions (sys_world s') (ID x) \<noteq> None \<and> ID x \<notin> set (spawned s')"
      using i2 fl by (auto simp add: s' db' sp)
    have c3: "\<forall>t\<in>set (spawned s'). \<exists>x. executions (sys_world s') t = Some x \<and> Results x = []"
      using i3 t_new u_new by (auto simp add: s' db' sp new_row_ok)
    have c4: "distinct (spawned s')" using i4 t_new by (simp add: s' sp)
    show ?thesis using c1 c2 c3 c4 by (simp add: sys_inv_def)
  qed
qed

lemma sys_inv_delete:
  assumes inv: "sys_inv s" and st: "step cfg unmarshal (Delete now ctx taskID) s = Some s'"
  shows "sys_inv s'"
proof -
  let ?db = "executions (sys_world s)"
  from inv have i1: "\<And>k x. ?db k = Some x \<Longrightarrow> ID x = k \<and> record_ok x"
    by (auto simp add: sys_inv_def)
  have "CancelTask now ?db ctx taskID = (fst (CancelTask now ?db ctx taskID), ?db) \<or>
        (\<exists>x. ?db taskID = Some x \<and>
           snd (CancelTask now ?db ctx taskID) =
             ?db(taskID \<mapsto> x\<lparr>Status := ''cancelled'', EndTime := now\<rparr>))"
    using i1 by (auto simp add: CancelTask_def TaskQueue_CancelTask_def Save_def
        split: option.splits)
  then show ?thesis
  proof
    assume "CancelTask now ?db ctx taskID = (fst (CancelTask now ?db ctx taskID), ?db)"
    then have "snd (CancelTask now ?db ctx taskID) = ?db" by (metis snd_conv)
    with st have "s' = s\<lparr>sys_world := (sys_world s)\<lparr>executions := ?db\<rparr>\<rparr>"
      by (auto split: prod.splits)
    with inv show ?thesis by (simp add: sys_inv_def)
  next
    assume "\<exists>x. ?db taskID = Some x \<and>
           snd (CancelTask now ?db ctx taskID) =
             ?db(taskID \<mapsto> x\<lparr>Status := ''cancelled'', EndTime := now\<rparr>)"
    then obtain x where x: "?db taskID = Some x"
      and upd: "snd (CancelTask now ?db ctx taskID) =
             ?db(taskID \<mapsto> x\<lparr>Status := ''cancelled'', EndTime := now\<rparr>)" by auto
    from st upd have s': "s' = s\<lparr>sys_world := (sys_world s)
        \<lparr>executions := ?db(taskID \<mapsto> x\<lparr>Status := ''cancelled'', EndTime := now\<rparr>)\<rparr>\<rparr>"
      by (auto split: prod.splits)
    from i1[OF x] have okx: "record_ok (x\<lparr>Status := ''cancelled'', EndTime := now\<rparr>)"
      and idx: "ID x = taskID"
      by (auto simp add: record_ok_def)
    show ?thesis using inv x okx idx
      by (auto simp add: sys_inv_def s')
  qed
qed

lemma sys_inv_driver_start:
  assumes inv: "sys_inv s" and st: "step cfg unmarshal (DriverStart now taskID) s = Some s'"
  shows "sys_inv s'"
proof -
  let ?db = "executions (sys_world s)"
  from st have mem: "taskID \<in> set (spawned s)" by (simp split: if_splits)
  from inv have i1: "\<And>k x. ?db k = Some x \<Longrightarrow> ID x = k \<and> record_ok x"
    and i2: "\<And>x. x \<in> set (in_flight s) \<Longrightarrow> Status x = ''running'' \<and> Results x = [] \<and>
        Error x = [] \<and> ?db (ID x) \<noteq> None \<and> ID x \<notin> set (spawned s)"
    and i3: "\<And>t. t \<in> set (spawned s) \<Longrightarrow> \<exists>x. ?db t = Some x \<and> Results x = []"
    and i4: "distinct (spawned s)"
    by (auto simp add: sys_inv_def)
  from i3[OF mem] obtain x where x: "?db taskID = Some x" and rx: "Results x = []" by auto
  from i1[OF x] have idx: "ID x = taskID" and okx: "record_ok x" by auto
  let ?x = "x\<lparr>Status := ''running'', StartTime := now\<rparr>"
  have "processExecution_start now ?db taskID = (Some ?x, ?db(taskID \<mapsto> ?x))"
    using x idx by (simp add: processExecution_start_def Save_def Let_def)
  with st mem have s': "s' = s\<lparr>sys_world := (sys_world s)\<lparr>executions := ?db(taskID \<mapsto> ?x)\<rparr>,
      spawned := remove1 taskID (spawned s), in_flight := ?x # in_flight s\<rparr>"
    by simp
  have ok': "record_ok ?x" using okx rx by (simp add: record_ok_def)
  have c1: "\<forall>k y. executions (sys_world s') k = Some y \<longrightarrow> ID y = k \<and> record_ok y"
    using i1 ok' idx by (auto simp add: s' split: if_splits)
  have c2: "\<forall>y\<in>set (in_flight s'). Status y = ''running'' \<and> Results y = [] \<and> Error y = [] \<and>
        executions (sys_world s') (ID y) \<noteq> None \<and> ID y \<notin> set (spawned s')"
    using i2 i4 ok' rx idx by (auto simp add: s' record_ok_def dest: notin_set_remove1)
  have c3: "\<forall>t\<in>set (spawned s'). \<exists>y. executions (sys_world s') t = Some y \<and> Results y = []"
    using i3 i4 by (auto simp add: s')
  have c4: "distinct (spawned s')" using i4 by (simp add: s')
  show ?thesis using c1 c2 c3 c4 by (simp add: sys_inv_def)
qed

lemma sys_inv_driver_finish:
  assumes inv: "sys_inv s" and st: "step cfg unmarshal (DriverFinish now taskID) s = Some s'"
  shows "sys_inv s'"
proof -
  let ?db = "executions (sys_world s)"
  from st obtain x where f: "find (\<lambda>x. ID x = taskID) (in_flight s) = Some x"
    by (auto split: option.splits)
  then have mem: "x \<in> set (in_flight s)" and idx: "ID x = taskID"
    by (auto simp add: find_Some_iff)
  from inv have i1: "\<And>k x. ?db k = Some x \<Longrightarrow> ID x = k \<and> record_ok x"
    and i2: "\<And>x. x \<in> set (in_flight s) \<Longrightarrow> Status x = ''running'' \<and> Results x = [] \<and>
        Error x = [] \<and> ?db (ID x) \<noteq> None \<and> ID x \<notin> set (spawned s)"
    and i3: "\<And>t. t \<in> set (spawned s) \<Longrightarrow> \<exists>x. ?db t = Some x \<and> Results x = []"
    and i4: "distinct (spawned s)"
    by (auto simp add: sys_inv_def)
  let ?x = "x\<lparr>Status := ''completed'', EndTime := now, Results := results_text\<rparr>"
  have fin: "processExecution_finish now ?db x = ?db(taskID \<mapsto> ?x)"
    using idx by (simp add: processExecution_finish_def Save_def Let_def)
  with st f have s': "s' = s\<lparr>sys_world := (sys_world s)\<lparr>executions := ?db(taskID \<mapsto> ?x)\<rparr>,
      in_flight := remove1 x (in_flight s)\<rparr>"
    by simp
  from i2[OF mem] have ex: "Error x = []" and ns: "taskID \<notin> set (spawned s)"
    using idx by auto
  have ok': "record_ok ?x" using ex by (simp add: record_ok_def results_text_def)
  have c1: "\<forall>k y. executions (sys_world s') k = Some y \<longrightarrow> ID y = k \<and> record_ok y"
    using i1 ok' idx by (auto simp add: s' split: if_splits)
  have c2: "\<forall>y\<in>set (in_flight s'). Status y = ''running'' \<and> Results y = [] \<and> Error y = [] \<and>
        executions (sys_world s') (ID y) \<noteq> None \<and> ID y \<notin> set (spawned s')"
    using i2 by (auto simp add: s' dest: notin_set_remove1)
  have c3: "\<forall>t\<in>set (spawned s'). \<exists>y. executions (sys_world s') t = Some y \<and> Results y = []"
    using i3 ns by (auto simp add: s')
  have c4: "distinct (spawned s')" using i4 by (simp add: s')
  show ?thesis using c1 c2 c3 c4 by (simp add: sys_inv_def)
qed

lemma sys_inv_other:
  assumes inv: "sys_inv s" and st: "step cfg unmarshal (Other ds cs) s = Some s'"
  shows "sys_inv s'"
  using assms by (auto simp add: sys_inv_def)

lemma sys_inv_step:
  "sys_inv s \<Longrightarrow> step cfg unmarshal ev s = Some s' \<Longrightarrow> sys_inv s'"
  by (cases ev) (blast intro: sys_inv_post sys_inv_delete sys_inv_driver_start
      sys_inv_driver_finish sys_inv_other)+

lemma sys_inv_run:
  "sys_inv s \<Longrightarrow> run cfg unmarshal evs s = Some s' \<Longrightarrow> sys_inv s'"
proof (induction evs arbitrary: s)
  case Nil
  then show ?case by simp
next
  case (Cons ev evs)
  from Cons.prems(2) obtain s1 where a: "step cfg unmarshal ev s = Some s1"
    and b: "run cfg unmarshal evs s1 = Some s'"
    by (auto split: option.splits)
  from sys_inv_step[OF Cons.prems(1) a] have "sys_inv s1" .
  from Cons.IH[OF this b] show ?case .
qed

text \<open>
  C7, amended. In every state that submissions, cancel requests and drivers reach from
  an empty table (task identities being new at each submission), every task record has
  an empty error and one of the statuses queued, running, completed and cancelled; its
  results are empty while it is queued or running and non-empty once it is completed.
  So at most one of results and error is non-empty in a terminal status: a completed
  task has results and no error, and a cancelled task has no error, and results only
  when it was cancelled after completing.
\<close>

theorem task_record_invariant:
  assumes "run cfg unmarshal evs (initial ds cs) = Some s"
    and "executions (sys_world s) taskID = Some x"
  shows "Error x = [] \<and>
         (Status x = ''queued'' \<or> Status x = ''running'' \<or> Status x = ''completed'' \<or>
          Status x = ''cancelled'') \<and>
         (Status x = ''queued'' \<or> Status x = ''running'' \<longrightarrow> Results x = []) \<and>
         (Status x = ''completed'' \<longrightarrow> Results x \<noteq> [])"
proof -
  have "sys_inv s" using sys_inv_run[OF sys_inv_initial assms(1)] .
  with assms(2) have "record_ok x" by (auto simp add: sys_inv_def)
  then show ?thesis by (simp add: record_ok_def)
qed

theorem task_record_invariant_witness:
  "map_option (\<lambda>s. executions (sys_world s) ''task-1'')
     (run example_cfg example_unmarshal
        [Post (example_env 1 ''a'') (Some alice) (Some example_request),
         DriverStart 1001 ''task-1'', DriverFinish 1003 ''task-1'']
        (initial example_datasets Map.empty)) =
     Some (Some ((example_task ''completed'' results_text)\<lparr>StartTime := 1001, EndTime := 1003\<rparr>)) \<and>
   results_text \<noteq> []"
proof -
  let ?x = "(example_task ''completed'' results_text)\<lparr>StartTime := 1001, EndTime := 1003\<rparr>"
  obtain s where r: "run example_cfg example_unmarshal
        [Post (example_env 1 ''a'') (Some alice) (Some example_request),
         DriverStart 1001 ''task-1'', DriverFinish 1003 ''task-1'']
        (initial example_datasets Map.empty) = Some s"
    and x: "executions (sys_world s) ''task-1'' = Some ?x"
    by (simp add: model_defs initial_def example_datasets_def example_task_def
        processExecution_start_def processExecution_finish_def Let_def)
  from task_record_invariant[OF r x] have "Results ?x \<noteq> []"
    by (simp add: example_task_def)
  with r x show ?thesis by (simp add: example_task_def)
qed

text \<open>
  Against C7 as the claim has it: a task cancelled before its driver ran is in a
  terminal status with empty results and empty error.
\<close>

theorem cancelled_task_has_neither_counterexample:
  "map_option (\<lambda>s. executions (sys_world s) ''task-1'')
     (run example_cfg example_unmarshal
        [Post (example_env 1 ''a'') (Some alice) (Some example_request),
         Delete 1001 (Some alice) ''task-1'']
        (initial example_datasets Map.empty)) =
     Some (Some ((example_task ''cancelled'' [])\<lparr>EndTime := 1001\<rparr>)) \<and>
   Status ((example_task ''cancelled'' [])\<lparr>EndTime := 1001\<rparr>) = ''cancelled'' \<and>
   Results ((example_task ''cancelled'' [])\<lparr>EndTime := 1001\<rparr>) = [] \<and>
   Error ((example_task ''cancelled'' [])\<lparr>EndTime := 1001\<rparr>) = []"
  by (simp add: model_defs initial_def example_datasets_def example_task_def CancelTask_def
      TaskQueue_CancelTask_def Let_def)

end
